theory Spec2Isabelle
  imports Main "HOL-Library.Word" "HOL-Library.AList"
begin

section \<open>Mini-RPC: the codec, the server dispatcher and the client engine\<close>

text \<open>
  A shallow embedding of the Go sources \<^verbatim>\<open>codec/codec.go\<close>, \<^verbatim>\<open>codec/gob.go\<close>,
  \<^verbatim>\<open>server.go\<close> and the client (\<^verbatim>\<open>unnamed/part_000\<close>).

  Conventions of the embedding:
  \<^item> A Go method with a pointer receiver takes the receiver's state and returns the new
    state next to its results.
  \<^item> Go's \<^verbatim>\<open>error\<close> results are values; \<^verbatim>\<open>nil\<close> is \<open>None\<close>.
  \<^item> Every function below is one uninterrupted execution of the Go function. The two
    mutexes of the client and the send mutex of the server are not modelled as objects:
    what they protect is atomic here. The theorems about the functions that run under the
    client's bookkeeping lock quantify over every client state, so they hold at whatever
    point of an interleaving the function is entered.
  \<^item> A send on a \<^verbatim>\<open>Done\<close> channel is recorded as a completion event: the functions return
    the list of Calls they have sent, in order. In \<^verbatim>\<open>send\<close> and in a round of
    \<^verbatim>\<open>receive\<close> the send is the last thing done to the Call and is always reached.
    In \<^verbatim>\<open>terminateCalls\<close> the sends are made in a loop, where a send that finds its
    channel full keeps the loop from going on: there the room in the channels is
    modelled, and the result says whether the function has returned.
  \<^item> Logging is not modelled.
\<close>

subsection \<open>Errors and values\<close>

text \<open>
  Errors that come out of Go's standard library (\<^verbatim>\<open>io\<close>, \<^verbatim>\<open>net\<close>, \<^verbatim>\<open>encoding/gob\<close>,
  \<^verbatim>\<open>encoding/json\<close>): \<^verbatim>\<open>io.EOF\<close>, or any other error with its text.
\<close>

datatype lib_error = EOF | LibError string

text \<open>\<^verbatim>\<open>err.Error()\<close> on such an error.\<close>

fun lib_error_text :: "lib_error \<Rightarrow> string" where
  "lib_error_text EOF = ''EOF''"
| "lib_error_text (LibError s) = s"

text \<open>
  The errors the repository handles: those it builds with \<^verbatim>\<open>errors.New(text)\<close>, those it
  builds with \<^verbatim>\<open>fmt.Errorf(format, operands...)\<close> (kept as format and operands: how
  \<^verbatim>\<open>fmt\<close> renders a format is not part of the repository), and library errors passed on.
\<close>

datatype error = ErrorsNew string | FmtErrorf string "string list" | Lib lib_error

text \<open>
  The Go values that travel as \<^verbatim>\<open>interface{}\<close> (arguments, replies, bodies): \<^verbatim>\<open>nil\<close>,
  a string, an integer, the empty struct \<^verbatim>\<open>struct{}{}\<close>, and a channel as a value
  that gob cannot encode.
\<close>

datatype val = VNil | VString string | VInt int | VEmptyStruct | VChan

subsection \<open>Wire protocol (\<^verbatim>\<open>codec/codec.go\<close>, \<^verbatim>\<open>server.go\<close>)\<close>

type_synonym u64 = "64 word"

record Header =
  ServiceMethod :: string
  Seq :: u64
  Error :: string

text \<open>\<^verbatim>\<open>var h codec.Header\<close>: the zero value.\<close>

definition zero_Header :: Header where
  "zero_Header = \<lparr>ServiceMethod = '''', Seq = 0, Error = ''''\<rparr>"

definition GobType :: string where
  "GobType = ''application/gob''"

definition JsonType :: string where
  "JsonType = ''application/json''"

definition MagicNumber_const :: int where
  "MagicNumber_const = 0x3bef5c"

record Option =
  MagicNumber :: int
  CodecType :: string

text \<open>
  \<^verbatim>\<open>DefaultOption\<close> is a package variable in Go (a pointer to a struct). Nothing in the
  repository changes the struct it points to, so it is a constant here.
\<close>

definition DefaultOption :: Option where
  "DefaultOption = \<lparr>MagicNumber = MagicNumber_const, CodecType = GobType\<rparr>"

subsection \<open>The transport\<close>

text \<open>
  The byte stream is modelled at the granularity of encoded values: one JSON Option
  record, one gob-encoded Header, one gob-encoded body value, or something that no
  decoder accepts. A failed decoding consumes the value it was given.
\<close>

datatype wire = WOption Option | WHeader Header | WBody val | WGarbage

text \<open>
  One end of a connection (\<^verbatim>\<open>io.ReadWriteCloser\<close>): what is still to be read, what
  has been written, and whether this end has been closed. Reading at the end of the
  input is \<^verbatim>\<open>io.EOF\<close>; every operation on a closed connection is an error.
\<close>

record Conn =
  rd :: "wire list"
  wr :: "wire list"
  closed :: bool

definition ErrClosed :: lib_error where
  "ErrClosed = LibError ''use of closed network connection''"

definition conn_Read :: "Conn \<Rightarrow> (lib_error + wire) \<times> Conn" where
  "conn_Read k =
     (if closed k then (Inl ErrClosed, k)
      else case rd k of
             [] \<Rightarrow> (Inl EOF, k)
           | w # ws \<Rightarrow> (Inr w, k\<lparr>rd := ws\<rparr>))"

definition conn_Write :: "wire list \<Rightarrow> Conn \<Rightarrow> lib_error option \<times> Conn" where
  "conn_Write ws k =
     (if closed k then (Some ErrClosed, k) else (None, k\<lparr>wr := wr k @ ws\<rparr>))"

definition conn_Close :: "Conn \<Rightarrow> lib_error option \<times> Conn" where
  "conn_Close k =
     (if closed k then (Some ErrClosed, k) else (None, k\<lparr>closed := True\<rparr>))"

text \<open>
  \<^verbatim>\<open>bufio.Writer\<close>: the values written and not yet flushed, and the writer's sticky
  error. The buffer is assumed large enough for what one \<^verbatim>\<open>Write\<close> of the codec
  encodes, so that writing into it never flushes by itself.
\<close>

record Writer =
  data :: "wire list"
  werr :: "lib_error option"

definition Writer_Write :: "wire \<Rightarrow> Writer \<Rightarrow> lib_error option \<times> Writer" where
  "Writer_Write w b =
     (case werr b of
        Some e \<Rightarrow> (Some e, b)
      | None \<Rightarrow> (None, b\<lparr>data := data b @ [w]\<rparr>))"

subsection \<open>The gob codec (\<^verbatim>\<open>codec/gob.go\<close>)\<close>

text \<open>
  The fields \<^verbatim>\<open>dec\<close> and \<open>enc\<close> of the Go struct hold no state of their own at this
  granularity: the decoder reads from \<open>conn\<close>, the encoder writes into \<open>buf\<close>.
\<close>

record GobCodec =
  conn :: Conn
  buf :: Writer

definition NewGobCodec :: "Conn \<Rightarrow> GobCodec" where
  "NewGobCodec k = \<lparr>conn = k, buf = \<lparr>data = [], werr = None\<rparr>\<rparr>"

text \<open>\<^verbatim>\<open>c.buf.Flush()\<close>.\<close>

definition buf_Flush :: "GobCodec \<Rightarrow> lib_error option \<times> GobCodec" where
  "buf_Flush c =
     (case werr (buf c) of
        Some e \<Rightarrow> (Some e, c)
      | None \<Rightarrow>
          if data (buf c) = [] then (None, c)
          else (case conn_Write (data (buf c)) (conn c) of
                  (None, k) \<Rightarrow> (None, c\<lparr>conn := k, buf := (buf c)\<lparr>data := []\<rparr>\<rparr>)
                | (Some e, k) \<Rightarrow> (Some e, c\<lparr>conn := k, buf := (buf c)\<lparr>werr := Some e\<rparr>\<rparr>)))"

text \<open>
  What gob makes of a body value: \<^verbatim>\<open>nil\<close> and channels are refused, every other value
  is encoded.
\<close>

fun gob_encodable :: "val \<Rightarrow> bool" where
  "gob_encodable VNil = False"
| "gob_encodable VChan = False"
| "gob_encodable _ = True"

definition ErrEncode :: lib_error where
  "ErrEncode = LibError ''gob: cannot encode value''"

definition ErrDecode :: lib_error where
  "ErrDecode = LibError ''gob: type mismatch''"

text \<open>\<^verbatim>\<open>c.enc.Encode(h)\<close> for a Header and \<^verbatim>\<open>c.enc.Encode(body)\<close> for a body.\<close>

definition enc_Encode_Header :: "Header \<Rightarrow> GobCodec \<Rightarrow> lib_error option \<times> GobCodec" where
  "enc_Encode_Header hdr c =
     (case Writer_Write (WHeader hdr) (buf c) of (r, b) \<Rightarrow> (r, c\<lparr>buf := b\<rparr>))"

definition enc_Encode :: "val \<Rightarrow> GobCodec \<Rightarrow> lib_error option \<times> GobCodec" where
  "enc_Encode body c =
     (if gob_encodable body
      then (case Writer_Write (WBody body) (buf c) of (r, b) \<Rightarrow> (r, c\<lparr>buf := b\<rparr>))
      else (Some ErrEncode, c))"

text \<open>Two Go values have the same type.\<close>

fun same_type :: "val \<Rightarrow> val \<Rightarrow> bool" where
  "same_type VNil VNil = True"
| "same_type (VString _) (VString _) = True"
| "same_type (VInt _) (VInt _) = True"
| "same_type VEmptyStruct VEmptyStruct = True"
| "same_type VChan VChan = True"
| "same_type _ _ = False"

text \<open>
  \<^verbatim>\<open>c.dec.Decode(h)\<close> into a Header: the next value on the stream is consumed; it
  decodes if it is a Header. The variable decoded into holds the zero Header at every
  call in the repository's client and server, so a decoded Header replaces it whole.
\<close>

definition dec_Decode_Header :: "Header \<Rightarrow> GobCodec \<Rightarrow> (lib_error option \<times> Header) \<times> GobCodec" where
  "dec_Decode_Header hdr c =
     (case conn_Read (conn c) of
        (Inl e, k) \<Rightarrow> ((Some e, hdr), c\<lparr>conn := k\<rparr>)
      | (Inr w, k) \<Rightarrow>
          (case w of
             WHeader hdr' \<Rightarrow> ((None, hdr'), c\<lparr>conn := k\<rparr>)
           | _ \<Rightarrow> ((Some ErrDecode, hdr), c\<lparr>conn := k\<rparr>)))"

text \<open>
  \<^verbatim>\<open>c.dec.Decode(body)\<close>. The destination is \<open>None\<close> for \<^verbatim>\<open>nil\<close> (the value is
  consumed and discarded) or \<open>Some d\<close> for a pointer to a variable that holds \<open>d\<close>; the
  value decodes into it if it has the variable's type. The result is the error and what
  the destination holds afterwards.
\<close>

definition dec_Decode :: "val option \<Rightarrow> GobCodec \<Rightarrow> (lib_error option \<times> val option) \<times> GobCodec" where
  "dec_Decode dest c =
     (case conn_Read (conn c) of
        (Inl e, k) \<Rightarrow> ((Some e, dest), c\<lparr>conn := k\<rparr>)
      | (Inr w, k) \<Rightarrow>
          (case w of
             WGarbage \<Rightarrow> ((Some ErrDecode, dest), c\<lparr>conn := k\<rparr>)
           | WOption _ \<Rightarrow> ((Some ErrDecode, dest), c\<lparr>conn := k\<rparr>)
           | WHeader _ \<Rightarrow>
               (case dest of
                  None \<Rightarrow> ((None, None), c\<lparr>conn := k\<rparr>)
                | Some d \<Rightarrow> ((Some ErrDecode, dest), c\<lparr>conn := k\<rparr>))
           | WBody v \<Rightarrow>
               (case dest of
                  None \<Rightarrow> ((None, None), c\<lparr>conn := k\<rparr>)
                | Some d \<Rightarrow>
                    if same_type d v then ((None, Some v), c\<lparr>conn := k\<rparr>)
                    else ((Some ErrDecode, dest), c\<lparr>conn := k\<rparr>))))"

definition GobCodec_ReadHeader :: "Header \<Rightarrow> GobCodec \<Rightarrow> (lib_error option \<times> Header) \<times> GobCodec" where
  "GobCodec_ReadHeader hdr c = dec_Decode_Header hdr c"

definition GobCodec_ReadBody :: "val option \<Rightarrow> GobCodec \<Rightarrow> (lib_error option \<times> val option) \<times> GobCodec" where
  "GobCodec_ReadBody body c = dec_Decode body c"

definition GobCodec_Close :: "GobCodec \<Rightarrow> lib_error option \<times> GobCodec" where
  "GobCodec_Close c = (case conn_Close (conn c) of (r, k) \<Rightarrow> (r, c\<lparr>conn := k\<rparr>))"

text \<open>
  The deferred function of \<^verbatim>\<open>Write\<close>: it runs on every return, with the value of the
  named result \<^verbatim>\<open>err\<close>. The error of the flush is dropped, as \<^verbatim>\<open>_ = c.buf.Flush()\<close>
  does.
\<close>

definition Write_deferred :: "lib_error option \<Rightarrow> GobCodec \<Rightarrow> lib_error option \<times> GobCodec" where
  "Write_deferred err c =
     (let c1 = snd (buf_Flush c);
          c2 = (if err \<noteq> None then snd (GobCodec_Close c1) else c1)
      in (err, c2))"

definition GobCodec_Write :: "Header \<Rightarrow> val \<Rightarrow> GobCodec \<Rightarrow> lib_error option \<times> GobCodec" where
  "GobCodec_Write hdr body c =
     (case enc_Encode_Header hdr c of
        (Some e, c1) \<Rightarrow> Write_deferred (Some e) c1
      | (None, c1) \<Rightarrow>
          (case enc_Encode body c1 of
             (Some e, c2) \<Rightarrow> Write_deferred (Some e) c2
           | (None, c2) \<Rightarrow> Write_deferred None c2))"

text \<open>\<^verbatim>\<open>NewCodecFuncMap\<close> after \<^verbatim>\<open>init\<close>: only the gob constructor is registered.\<close>

definition NewCodecFuncMap :: "string \<rightharpoonup> (Conn \<Rightarrow> GobCodec)" where
  "NewCodecFuncMap = [GobType \<mapsto> NewGobCodec]"

subsection \<open>The server (\<^verbatim>\<open>server.go\<close>)\<close>

text \<open>\<^verbatim>\<open>json.NewDecoder(conn).Decode(&opt)\<close>: the first value on the stream must be an Option record.\<close>

definition json_Decode :: "Conn \<Rightarrow> (lib_error + Option) \<times> Conn" where
  "json_Decode k =
     (case conn_Read k of
        (Inl e, k1) \<Rightarrow> (Inl e, k1)
      | (Inr w, k1) \<Rightarrow>
          (case w of
             WOption opt \<Rightarrow> (Inr opt, k1)
           | _ \<Rightarrow> (Inl (LibError ''json: cannot decode Option''), k1)))"

text \<open>\<^verbatim>\<open>json.NewEncoder(conn).Encode(opt)\<close>: written to the connection at once.\<close>

definition json_Encode :: "Option \<Rightarrow> Conn \<Rightarrow> lib_error option \<times> Conn" where
  "json_Encode opt k = conn_Write [WOption opt] k"

definition invalidRequest :: val where
  "invalidRequest = VEmptyStruct"

record request =
  h :: Header
  argv :: val
  replyv :: val

definition readRequestHeader :: "GobCodec \<Rightarrow> (lib_error + Header) \<times> GobCodec" where
  "readRequestHeader c =
     (case GobCodec_ReadHeader zero_Header c of
        ((Some e, _), c1) \<Rightarrow> (Inl e, c1)
      | ((None, hdr), c1) \<Rightarrow> (Inr hdr, c1))"

text \<open>
  \<^verbatim>\<open>readRequest\<close> returns the pair \<^verbatim>\<open>(*request, error)\<close>. The argument is decoded
  into a fresh string variable; the error of \<^verbatim>\<open>ReadBody\<close> is logged and the function
  ends with \<^verbatim>\<open>return req, nil\<close>.
\<close>

definition readRequest :: "GobCodec \<Rightarrow> (request option \<times> lib_error option) \<times> GobCodec" where
  "readRequest c =
     (case readRequestHeader c of
        (Inl e, c1) \<Rightarrow> ((None, Some e), c1)
      | (Inr hdr, c1) \<Rightarrow>
          (let req = \<lparr>h = hdr, argv = VString '''', replyv = VNil\<rparr>
           in case GobCodec_ReadBody (Some (argv req)) c1 of
                ((err, dest), c2) \<Rightarrow>
                  ((Some (req\<lparr>argv := (case dest of Some v \<Rightarrow> v | None \<Rightarrow> argv req)\<rparr>), None), c2)))"

definition sendResponse :: "GobCodec \<Rightarrow> Header \<Rightarrow> val \<Rightarrow> GobCodec" where
  "sendResponse c hdr body = snd (GobCodec_Write hdr body c)"

text \<open>\<^verbatim>\<open>%d\<close> of an unsigned integer: its decimal digits.\<close>

fun decimal :: "nat \<Rightarrow> string" where
  "decimal n =
     (if n < 10 then [''0123456789'' ! n]
      else decimal (n div 10) @ [''0123456789'' ! (n mod 10)])"

declare decimal.simps [simp del]

definition handleRequest :: "GobCodec \<Rightarrow> request \<Rightarrow> GobCodec" where
  "handleRequest c req =
     (let req1 = req\<lparr>replyv := VString (''geerpc resp '' @ decimal (unat (Header.Seq (h req))))\<rparr>
      in sendResponse c (h req1) (replyv req1))"

text \<open>
  The read loop of \<^verbatim>\<open>serveCodec\<close>. Each worker started with \<^verbatim>\<open>go server.handleRequest\<close>
  is run to its end before the next request is read: one of the schedules the send mutex
  allows, in which every response is written whole. When the loop is left, all workers
  have finished (\<^verbatim>\<open>wg.Wait()\<close>) and the codec is closed. The loop ends because every
  round consumes at least the Header from a finite input.

  \<^verbatim>\<open>readRequest\<close> never returns \<^verbatim>\<open>(nil, nil)\<close> (lemma \<open>readRequest_not_nil_nil\<close>),
  so the last case is never taken.
\<close>

function serveCodec :: "GobCodec \<Rightarrow> GobCodec" where
  "serveCodec c =
     (case readRequest c of
        ((None, Some err), c1) \<Rightarrow> snd (GobCodec_Close c1)
      | ((Some req, Some err), c1) \<Rightarrow>
          serveCodec (sendResponse c1 ((h req)\<lparr>Error := lib_error_text err\<rparr>) invalidRequest)
      | ((Some req, None), c1) \<Rightarrow> serveCodec (handleRequest c1 req)
      | ((None, None), c1) \<Rightarrow> snd (GobCodec_Close c1))"
  by pat_completeness auto
termination
proof -
  have rd_Write: "rd (conn (snd (GobCodec_Write hdr body c))) = rd (conn c)" for hdr body c
    by (auto simp: GobCodec_Write_def Write_deferred_def enc_Encode_Header_def enc_Encode_def
          Writer_Write_def buf_Flush_def GobCodec_Close_def conn_Close_def conn_Write_def Let_def
        split: option.splits prod.splits if_splits)
  have shorter: "length (rd (conn c1)) < length (rd (conn c))"
    if "((Some req, err), c1) = readRequest c" for c req err c1
    using that [symmetric]
    by (auto simp: readRequest_def readRequestHeader_def GobCodec_ReadHeader_def
          dec_Decode_Header_def GobCodec_ReadBody_def dec_Decode_def conn_Read_def Let_def
        split: prod.splits sum.splits option.splits wire.splits if_splits list.splits)
  show ?thesis
    by (relation "measure (\<lambda>c. length (rd (conn c)))")
       (auto simp: sendResponse_def handleRequest_def Let_def rd_Write dest: shorter)
qed

declare serveCodec.simps [simp del]

text \<open>
  \<^verbatim>\<open>ServeConn\<close>: every path ends with the deferred \<^verbatim>\<open>conn.Close()\<close>, whose error is
  dropped.
\<close>

definition ServeConn :: "Conn \<Rightarrow> Conn" where
  "ServeConn k =
     (case json_Decode k of
        (Inl err, k1) \<Rightarrow> snd (conn_Close k1)
      | (Inr opt, k1) \<Rightarrow>
          if MagicNumber opt \<noteq> MagicNumber_const then snd (conn_Close k1)
          else (case NewCodecFuncMap (CodecType opt) of
                  None \<Rightarrow> snd (conn_Close k1)
                | Some f \<Rightarrow> snd (conn_Close (conn (serveCodec (f k1))))))"

subsection \<open>The client (\<^verbatim>\<open>unnamed/part_000\<close>)\<close>

text \<open>
  A channel \<^verbatim>\<open>chan *Call\<close> is described by its capacity. \<^verbatim>\<open>nil\<close> is \<open>None\<close> where a
  channel is optional.
\<close>

record chan =
  cap :: nat

text \<open>
  \<open>Reply\<close> is \<open>None\<close> for a \<^verbatim>\<open>nil\<close> destination and \<open>Some d\<close> for a pointer to a
  variable that holds \<open>d\<close>.
\<close>

record Call =
  Seq :: u64
  ServiceMethod :: string
  Args :: val
  Reply :: "val option"
  Error :: "error option"
  Done :: chan

text \<open>
  The Go map \<^verbatim>\<open>pending\<close> is an association list: lookup with \<open>map_of\<close>, assignment with
  \<open>AList.update\<close>, \<^verbatim>\<open>delete\<close> with \<open>AList.delete\<close>. The order in which
  \<^verbatim>\<open>range\<close> visits a Go map is unspecified; the list's order is one such order. The
  fields \<^verbatim>\<open>sending\<close> and \<^verbatim>\<open>mu\<close> are the two mutexes (see the conventions above).
\<close>

record Client =
  cc :: GobCodec
  opt :: Option
  header :: Header
  seq :: u64
  pending :: "(u64 \<times> Call) list"
  closing :: bool
  shutdown :: bool

definition ErrShutdown :: error where
  "ErrShutdown = ErrorsNew ''connection is shut down''"

definition Client_Close :: "Client \<Rightarrow> error option \<times> Client" where
  "Client_Close client =
     (if closing client then (Some ErrShutdown, client)
      else (let client1 = client\<lparr>closing := True\<rparr>
            in case GobCodec_Close (cc client1) of
                 (r, c) \<Rightarrow> (map_option Lib r, client1\<lparr>cc := c\<rparr>)))"

definition IsAvailable :: "Client \<Rightarrow> bool" where
  "IsAvailable client = (\<not> shutdown client \<and> \<not> closing client)"

text \<open>
  \<^verbatim>\<open>registerCall\<close> returns the pair \<^verbatim>\<open>(uint64, error)\<close>; it also assigns
  \<^verbatim>\<open>call.Seq\<close>, so the Call is returned as well.
\<close>

definition registerCall :: "Call \<Rightarrow> Client \<Rightarrow> (u64 \<times> error option) \<times> Call \<times> Client" where
  "registerCall call client =
     (if closing client \<or> shutdown client then ((0, Some ErrShutdown), call, client)
      else (let call1 = call\<lparr>Seq := seq client\<rparr>;
                client1 = client\<lparr>pending := AList.update (Seq call1) call1 (pending client)\<rparr>;
                client2 = client1\<lparr>seq := seq client1 + 1\<rparr>
            in ((Seq call1, None), call1, client2)))"

definition removeCall :: "u64 \<Rightarrow> Client \<Rightarrow> Call option \<times> Client" where
  "removeCall s client =
     (let call = map_of (pending client) s
      in (call, client\<lparr>pending := AList.delete s (pending client)\<rparr>))"

text \<open>
  What is outside the client when \<^verbatim>\<open>terminateCalls\<close> runs:
  \<^item> \<open>range_order\<close>: the order in which \<^verbatim>\<open>range client.pending\<close> visits the keys of the
    map, which Go leaves unspecified;
  \<^item> \<open>done_of\<close>: which channel object the Call registered under a sequence number
    holds in \<^verbatim>\<open>Done\<close> (the \<open>chan\<close> of a Call tells the capacity only, and Calls
    handed the same channel through \<^verbatim>\<open>Go\<close> share one object);
  \<^item> \<open>free\<close>: how many more Calls each channel object takes before a send on it
    blocks (its capacity less what it holds).
\<close>

record runtime =
  range_order :: "u64 list"
  done_of :: "u64 \<Rightarrow> nat"
  free :: "nat \<Rightarrow> nat"

text \<open>The entries of the map in the order in which \<^verbatim>\<open>range\<close> visits their keys.\<close>

fun range_pending :: "u64 list \<Rightarrow> (u64 \<times> Call) list \<Rightarrow> (u64 \<times> Call) list" where
  "range_pending [] al = []"
| "range_pending (s # ss) al =
     (case map_of al s of
        None \<Rightarrow> range_pending ss al
      | Some call \<Rightarrow> (s, call) # range_pending ss al)"

text \<open>
  The loop of \<^verbatim>\<open>terminateCalls\<close> over the entries still to visit, with the channel of
  each Call (\<open>ch\<close>) and the room in the channels (\<open>room\<close>). Each round assigns
  \<^verbatim>\<open>call.Error\<close> and then sends the Call with \<^verbatim>\<open>call.done()\<close>, that is
  \<^verbatim>\<open>call.Done <- call\<close>: when the channel has no room the send blocks and the loop
  stays there; otherwise the Call takes one place in the channel. The result is the
  keys of the Calls that were assigned the error, the Calls sent, and whether the loop
  has come to its end.
\<close>

fun terminateCalls_loop ::
    "error \<Rightarrow> (u64 \<Rightarrow> nat) \<Rightarrow> (nat \<Rightarrow> nat) \<Rightarrow> (u64 \<times> Call) list \<Rightarrow> u64 list \<times> Call list \<times> bool" where
  "terminateCalls_loop err ch room [] = ([], [], True)"
| "terminateCalls_loop err ch room ((s, call) # rest) =
     (let call1 = call\<lparr>Error := Some err\<rparr>
      in if room (ch s) = 0 then ([s], [], False)
         else (case terminateCalls_loop err ch (room(ch s := room (ch s) - 1)) rest of
                 (ss, sent, ended) \<Rightarrow> (s # ss, call1 # sent, ended)))"

text \<open>
  \<^verbatim>\<open>terminateCalls\<close>: \<^verbatim>\<open>shutdown\<close> is set, then the loop runs. The Calls stay in the
  registry; being pointers in Go, the entries of the Calls that were assigned the
  error show it. The result is the client, the Calls sent on their \<^verbatim>\<open>Done\<close>
  channels, and whether \<^verbatim>\<open>terminateCalls\<close> has returned: \<open>False\<close> means that it is
  blocked in a send, holding both locks, in the state given.
\<close>

definition terminateCalls :: "error \<Rightarrow> runtime \<Rightarrow> Client \<Rightarrow> Client \<times> Call list \<times> bool" where
  "terminateCalls err rt client =
     (let client1 = client\<lparr>shutdown := True\<rparr>
      in case terminateCalls_loop err (done_of rt) (free rt)
                (range_pending (range_order rt) (pending client1)) of
           (ss, sent, returned) \<Rightarrow>
             (client1\<lparr>pending :=
                 map (\<lambda>(s, call). if s \<in> set ss then (s, call\<lparr>Error := Some err\<rparr>) else (s, call))
                     (pending client1)\<rparr>,
              sent, returned))"

text \<open>
  \<^verbatim>\<open>send\<close>: the result is the Call as \<^verbatim>\<open>send\<close> leaves it, the client, and the Calls
  sent on their \<^verbatim>\<open>Done\<close> channels.
\<close>

definition send :: "Call \<Rightarrow> Client \<Rightarrow> Call \<times> Client \<times> Call list" where
  "send call client =
     (case registerCall call client of
        ((s, Some err), call1, client1) \<Rightarrow>
          (let call2 = call1\<lparr>Error := Some err\<rparr> in (call2, client1, [call2]))
      | ((s, None), call1, client1) \<Rightarrow>
          (let client2 = client1\<lparr>header :=
                 \<lparr>Header.ServiceMethod = ServiceMethod call1, Header.Seq = s, Header.Error = ''''\<rparr>\<rparr>
           in case GobCodec_Write (header client2) (Args call1) (cc client2) of
                (None, c) \<Rightarrow> (call1, client2\<lparr>cc := c\<rparr>, [])
              | (Some err, c) \<Rightarrow>
                  (case removeCall s (client2\<lparr>cc := c\<rparr>) of
                     (None, client3) \<Rightarrow> (call1, client3, [])
                   | (Some call2, client3) \<Rightarrow>
                       (let call3 = call2\<lparr>Error := Some (Lib err)\<rparr>
                        in (call3, client3, [call3])))))"

text \<open>
  One round of the loop of \<^verbatim>\<open>receive\<close>: the value of the loop variable \<^verbatim>\<open>err\<close> at the
  end of the round, the client, and the Calls sent on their \<^verbatim>\<open>Done\<close> channels.
\<close>

definition receive_round :: "Client \<Rightarrow> lib_error option \<times> Client \<times> Call list" where
  "receive_round client =
     (case GobCodec_ReadHeader zero_Header (cc client) of
        ((Some err, hdr), c) \<Rightarrow> (Some err, client\<lparr>cc := c\<rparr>, [])
      | ((None, hdr), c) \<Rightarrow>
          (case removeCall (Header.Seq hdr) (client\<lparr>cc := c\<rparr>) of
             (None, client1) \<Rightarrow>
               (case GobCodec_ReadBody None (cc client1) of
                  ((err, dest), c1) \<Rightarrow> (err, client1\<lparr>cc := c1\<rparr>, []))
           | (Some call, client1) \<Rightarrow>
               if Header.Error hdr \<noteq> '''' then
                 (let call1 = call\<lparr>Error := Some (FmtErrorf (Header.Error hdr) [])\<rparr>
                  in case GobCodec_ReadBody None (cc client1) of
                       ((err, dest), c1) \<Rightarrow> (err, client1\<lparr>cc := c1\<rparr>, [call1]))
               else
                 (case GobCodec_ReadBody (Reply call) (cc client1) of
                    ((err, dest), c1) \<Rightarrow>
                      (let call1 = call\<lparr>Reply := dest\<rparr>;
                           call2 = (case err of
                                      None \<Rightarrow> call1
                                    | Some e \<Rightarrow>
                                        call1\<lparr>Error := Some (ErrorsNew (''reading body '' @ lib_error_text e))\<rparr>)
                       in (err, client1\<lparr>cc := c1\<rparr>, [call2])))))"




text \<open>\<^verbatim>\<open>log.Panic\<close> ends the call with a panic.\<close>

datatype panic = Panic string

text \<open>
  \<^verbatim>\<open>Go\<close>: a panic, or the Call it returns with the client and the Calls sent on their
  \<^verbatim>\<open>Done\<close> channels. (The synchronous \<^verbatim>\<open>Call\<close> is \<^verbatim>\<open>Go\<close> with a channel of
  capacity 1, followed by a receive on that channel; waiting is not modelled.)
\<close>

definition Go :: "string \<Rightarrow> val \<Rightarrow> val option \<Rightarrow> chan option \<Rightarrow> Client
    \<Rightarrow> panic + Call \<times> Client \<times> Call list" where
  "Go serviceMethod args reply done client =
     (case (case done of
              None \<Rightarrow> Inr \<lparr>cap = 10\<rparr>
            | Some ch \<Rightarrow>
                if cap ch = 0 then Inl (Panic ''rpc client: done channel is unbuffered'')
                else Inr ch) of
        Inl p \<Rightarrow> Inl p
      | Inr done1 \<Rightarrow>
          (let call = \<lparr>Seq = 0, ServiceMethod = serviceMethod, Args = args, Reply = reply,
                       Error = None, Done = done1\<rparr>
           in Inr (send call client)))"

text \<open>
  \<^verbatim>\<open>parseOptions(opts ...*Option)\<close>: the arguments are a list of pointers, \<open>None\<close> for
  \<^verbatim>\<open>nil\<close>.
\<close>

definition parseOptions :: "Option option list \<Rightarrow> error + Option" where
  "parseOptions opts =
     (case opts of
        [] \<Rightarrow> Inr DefaultOption
      | None # _ \<Rightarrow> Inr DefaultOption
      | Some opt0 # _ \<Rightarrow>
          if length opts \<noteq> 1 then Inl (ErrorsNew ''number of options is more than 1'')
          else (let opt1 = opt0\<lparr>MagicNumber := MagicNumber DefaultOption\<rparr>;
                    opt2 = (if CodecType opt1 = ''''
                            then opt1\<lparr>CodecType := CodecType DefaultOption\<rparr> else opt1)
                in Inr opt2))"

text \<open>
  \<^verbatim>\<open>newClientCodec\<close> returns the new client; the goroutine it starts runs \<open>receive\<close>
  on that client.
\<close>

definition newClientCodec :: "GobCodec \<Rightarrow> Option \<Rightarrow> Client" where
  "newClientCodec c opt0 =
     \<lparr>cc = c, opt = opt0, header = zero_Header, seq = 1, pending = [],
      closing = False, shutdown = False\<rparr>"

text \<open>
  \<^verbatim>\<open>NewClient\<close>: an error with the connection as it is left, or the client (which owns
  the connection through its codec).
\<close>

definition NewClient :: "Conn \<Rightarrow> Option \<Rightarrow> error \<times> Conn + Client" where
  "NewClient k opt0 =
     (case NewCodecFuncMap (CodecType opt0) of
        None \<Rightarrow> Inl (FmtErrorf ''invalid codec type %s'' [CodecType opt0], k)
      | Some f \<Rightarrow>
          (case json_Encode opt0 k of
             (Some err, k1) \<Rightarrow> Inl (Lib err, snd (conn_Close k1))
           | (None, k1) \<Rightarrow> Inr (newClientCodec (f k1) opt0)))"

text \<open>
  \<^verbatim>\<open>Dial\<close>, given what \<^verbatim>\<open>net.Dial\<close> returns. When \<^verbatim>\<open>NewClient\<close> fails, the deferred
  function closes the connection, which is then dropped; only the error is returned.
\<close>

definition Dial :: "error + Conn \<Rightarrow> Option option list \<Rightarrow> error + Client" where
  "Dial dialed opts =
     (case parseOptions opts of
        Inl err \<Rightarrow> Inl err
      | Inr opt0 \<Rightarrow>
          (case dialed of
             Inl err \<Rightarrow> Inl err
           | Inr k \<Rightarrow>
               (case NewClient k opt0 of
                  Inl (err, k1) \<Rightarrow> Inl err
                | Inr client \<Rightarrow> Inr client)))"

subsection \<open>Histories of a client\<close>

text \<open>
  Callers, the receive loop and \<^verbatim>\<open>Close\<close> run concurrently on one client; the locks
  put their critical sections in some order. A history is such an order: the
  operations of the client, executed one after the other. \<open>step\<close> returns the sequence
  numbers that \<^verbatim>\<open>registerCall\<close> has assigned during the operation (none or one) and
  the client afterwards; a call of \<^verbatim>\<open>Go\<close> that panics leaves the client as it is,
  and \<^verbatim>\<open>terminateCalls\<close> gives the client as it returns or as it is when it blocks.
\<close>

datatype action =
    Register Call
  | Remove u64
  | Terminate error runtime
  | CloseClient
  | Send Call
  | ReceiveRound
  | GoCall string val "val option" "chan option"

text \<open>
  What \<^verbatim>\<open>registerCall\<close> assigns on this client: it depends on the client only, not
  on the Call.
\<close>

definition issued :: "Call \<Rightarrow> Client \<Rightarrow> u64 list" where
  "issued call client =
     (case registerCall call client of
        ((s, None), _) \<Rightarrow> [s]
      | ((s, Some err), _) \<Rightarrow> [])"

fun step :: "action \<Rightarrow> Client \<Rightarrow> u64 list \<times> Client" where
  "step (Register call) client = (issued call client, snd (snd (registerCall call client)))"
| "step (Remove s) client = ([], snd (removeCall s client))"
| "step (Terminate err rt) client = ([], fst (terminateCalls err rt client))"
| "step CloseClient client = ([], snd (Client_Close client))"
| "step (Send call) client = (issued call client, fst (snd (send call client)))"
| "step ReceiveRound client = ([], fst (snd (receive_round client)))"
| "step (GoCall serviceMethod args reply done) client =
     (case Go serviceMethod args reply done client of
        Inl p \<Rightarrow> ([], client)
      | Inr (call, client1, sent) \<Rightarrow> (issued call client, client1))"

fun run :: "action list \<Rightarrow> Client \<Rightarrow> u64 list \<times> Client" where
  "run [] client = ([], client)"
| "run (a # as) client =
     (case step a client of
        (ss, client1) \<Rightarrow> (case run as client1 of (ss', client2) \<Rightarrow> (ss @ ss', client2)))"

text \<open>
  The registry as a Go map: no key twice, and every Call filed under its own sequence
  number.
\<close>

definition registry_inv :: "Client \<Rightarrow> bool" where
  "registry_inv client =
     (distinct (map fst (pending client)) \<and>
      list_all (\<lambda>(s, call). Seq call = s) (pending client))"

subsection \<open>Example data\<close>

text \<open>
  Data for the worked examples below: a call as \<^verbatim>\<open>Go\<close> builds it when no channel is
  given (with a string variable as reply destination), and a client that has issued
  three calls on a connection that still has \<open>ws\<close> to deliver, the second call
  having been removed from the registry again.
\<close>

definition example_call :: "u64 \<Rightarrow> string \<Rightarrow> Call" where
  "example_call s arg =
     \<lparr>Seq = s, ServiceMethod = ''Foo.Sum'', Args = VString arg, Reply = Some (VString ''''),
      Error = None, Done = \<lparr>cap = 10\<rparr>\<rparr>"

definition example_client :: "wire list \<Rightarrow> Client" where
  "example_client ws =
     snd (run [GoCall ''Foo.Sum'' (VString ''a'') (Some (VString '''')) None,
               GoCall ''Foo.Sum'' (VString ''b'') (Some (VString '''')) None,
               GoCall ''Foo.Sum'' (VString ''c'') (Some (VString '''')) None,
               Remove 2]
              (newClientCodec (NewGobCodec \<lparr>rd = ws, wr = [], closed = False\<rparr>) DefaultOption))"




section \<open>Properties\<close>

lemmas codec_write_defs = GobCodec_Write_def Write_deferred_def enc_Encode_Header_def
  enc_Encode_def Writer_Write_def buf_Flush_def GobCodec_Close_def conn_Close_def conn_Write_def

lemmas codec_read_defs = GobCodec_ReadHeader_def dec_Decode_Header_def GobCodec_ReadBody_def
  dec_Decode_def conn_Read_def

subsection \<open>The codec's write\<close>

text \<open>
  Claim C8. \<^verbatim>\<open>Write\<close> of the gob codec returns success exactly when the encoding of the
  Header and the encoding of the body both succeed. On every return the buffer has
  been flushed: a further flush changes nothing, and on an open connection with a
  healthy writer the buffer is empty and everything encoded is on the wire (the Header
  alone when the body could not be encoded). When either encoding fails, that error is
  returned and the codec has closed its connection.
\<close>

theorem GobCodec_Write_contract:
  "(fst (GobCodec_Write hdr body c) = None \<longleftrightarrow>
      fst (enc_Encode_Header hdr c) = None \<and>
      fst (enc_Encode body (snd (enc_Encode_Header hdr c))) = None) \<and>
   snd (buf_Flush (snd (GobCodec_Write hdr body c))) = snd (GobCodec_Write hdr body c) \<and>
   (\<not> closed (conn c) \<and> werr (buf c) = None \<longrightarrow>
      data (buf (snd (GobCodec_Write hdr body c))) = [] \<and>
      wr (conn (snd (GobCodec_Write hdr body c))) =
        wr (conn c) @ data (buf c) @ [WHeader hdr] @
        (if gob_encodable body then [WBody body] else [])) \<and>
   (fst (enc_Encode_Header hdr c) = Some e \<longrightarrow>
      fst (GobCodec_Write hdr body c) = Some e \<and>
      closed (conn (snd (GobCodec_Write hdr body c)))) \<and>
   (fst (enc_Encode_Header hdr c) = None \<and>
    fst (enc_Encode body (snd (enc_Encode_Header hdr c))) = Some e \<longrightarrow>
      fst (GobCodec_Write hdr body c) = Some e \<and>
      closed (conn (snd (GobCodec_Write hdr body c))))"
  by (auto simp: codec_write_defs Let_def split: option.splits prod.splits if_splits)

text \<open>
  Three runs: a body that gob refuses (the Header is flushed, the connection closed), a
  writer whose sticky error makes the Header's encoding fail, and a successful write.
\<close>

theorem GobCodec_Write_contract_witness:
  "fst (GobCodec_Write \<lparr>Header.ServiceMethod = ''Foo.Sum'', Header.Seq = 1, Header.Error = ''''\<rparr> VChan
          (NewGobCodec \<lparr>rd = [], wr = [], closed = False\<rparr>)) = Some ErrEncode \<and>
   conn (snd (GobCodec_Write \<lparr>Header.ServiceMethod = ''Foo.Sum'', Header.Seq = 1, Header.Error = ''''\<rparr> VChan
          (NewGobCodec \<lparr>rd = [], wr = [], closed = False\<rparr>))) =
     \<lparr>rd = [],
      wr = [WHeader \<lparr>Header.ServiceMethod = ''Foo.Sum'', Header.Seq = 1, Header.Error = ''''\<rparr>],
      closed = True\<rparr> \<and>
   fst (GobCodec_Write \<lparr>Header.ServiceMethod = ''Foo.Sum'', Header.Seq = 1, Header.Error = ''''\<rparr> (VString ''x'')
          \<lparr>conn = \<lparr>rd = [], wr = [], closed = False\<rparr>,
           buf = \<lparr>data = [], werr = Some ErrClosed\<rparr>\<rparr>) = Some ErrClosed \<and>
   closed (conn (snd (GobCodec_Write \<lparr>Header.ServiceMethod = ''Foo.Sum'', Header.Seq = 1, Header.Error = ''''\<rparr> (VString ''x'')
          \<lparr>conn = \<lparr>rd = [], wr = [], closed = False\<rparr>,
           buf = \<lparr>data = [], werr = Some ErrClosed\<rparr>\<rparr>))) \<and>
   GobCodec_Write \<lparr>Header.ServiceMethod = ''Foo.Sum'', Header.Seq = 1, Header.Error = ''''\<rparr> (VString ''x'')
          (NewGobCodec \<lparr>rd = [], wr = [], closed = False\<rparr>) =
     (None, \<lparr>conn = \<lparr>rd = [],
                      wr = [WHeader \<lparr>Header.ServiceMethod = ''Foo.Sum'', Header.Seq = 1, Header.Error = ''''\<rparr>,
                            WBody (VString ''x'')],
                      closed = False\<rparr>,
             buf = \<lparr>data = [], werr = None\<rparr>\<rparr>)"
  using GobCodec_Write_contract
          [of "\<lparr>Header.ServiceMethod = ''Foo.Sum'', Header.Seq = 1, Header.Error = ''''\<rparr>" VChan
              "NewGobCodec \<lparr>rd = [], wr = [], closed = False\<rparr>" ErrEncode]
        GobCodec_Write_contract
          [of "\<lparr>Header.ServiceMethod = ''Foo.Sum'', Header.Seq = 1, Header.Error = ''''\<rparr>" "VString ''x''"
              "\<lparr>conn = \<lparr>rd = [], wr = [], closed = False\<rparr>,
                buf = \<lparr>data = [], werr = Some ErrClosed\<rparr>\<rparr>" ErrClosed]
        GobCodec_Write_contract
          [of "\<lparr>Header.ServiceMethod = ''Foo.Sum'', Header.Seq = 1, Header.Error = ''''\<rparr>" "VString ''x''"
              "NewGobCodec \<lparr>rd = [], wr = [], closed = False\<rparr>" ErrEncode]
  by (simp add: codec_write_defs NewGobCodec_def ErrEncode_def ErrClosed_def)

subsection \<open>The server's handshake\<close>

text \<open>
  Claim C4. When the Option record fails to decode, or its magic number is not
  \<^verbatim>\<open>0x3bef5c\<close>, or no codec constructor is registered for its codec type,
  \<^verbatim>\<open>ServeConn\<close> returns with the connection closed and nothing written; and nothing
  can be written on the connection afterwards.
\<close>

theorem ServeConn_handshake_failure_silent:
  "fst (json_Decode k) = Inl err \<or>
   (fst (json_Decode k) = Inr opt0 \<and> MagicNumber opt0 \<noteq> 0x3bef5c) \<or>
   (fst (json_Decode k) = Inr opt0 \<and> NewCodecFuncMap (CodecType opt0) = None) \<Longrightarrow>
   closed (ServeConn k) \<and> wr (ServeConn k) = wr k \<and>
   snd (conn_Write ws (ServeConn k)) = ServeConn k"
  by (auto simp: ServeConn_def json_Decode_def conn_Read_def conn_Close_def conn_Write_def
        MagicNumber_const_def
      split: prod.splits sum.splits if_splits list.splits wire.splits option.splits)

text \<open>
  Three connections, each with a request waiting behind the handshake: an undecodable
  Option record, a wrong magic number, and the codec type \<^verbatim>\<open>application/json\<close>.
\<close>

theorem ServeConn_handshake_failure_silent_witness:
  "ServeConn \<lparr>rd = [WGarbage, WHeader zero_Header, WBody (VString ''x'')], wr = [], closed = False\<rparr> =
     \<lparr>rd = [WHeader zero_Header, WBody (VString ''x'')], wr = [], closed = True\<rparr> \<and>
   ServeConn \<lparr>rd = [WOption \<lparr>MagicNumber = 1, CodecType = GobType\<rparr>,
                     WHeader zero_Header, WBody (VString ''x'')], wr = [], closed = False\<rparr> =
     \<lparr>rd = [WHeader zero_Header, WBody (VString ''x'')], wr = [], closed = True\<rparr> \<and>
   ServeConn \<lparr>rd = [WOption \<lparr>MagicNumber = 0x3bef5c, CodecType = JsonType\<rparr>,
                     WHeader zero_Header, WBody (VString ''x'')], wr = [], closed = False\<rparr> =
     \<lparr>rd = [WHeader zero_Header, WBody (VString ''x'')], wr = [], closed = True\<rparr>"
  using ServeConn_handshake_failure_silent
          [of "\<lparr>rd = [WGarbage, WHeader zero_Header, WBody (VString ''x'')], wr = [], closed = False\<rparr>"
              "LibError ''json: cannot decode Option''" DefaultOption "[]"]
        ServeConn_handshake_failure_silent
          [of "\<lparr>rd = [WOption \<lparr>MagicNumber = 1, CodecType = GobType\<rparr>,
                     WHeader zero_Header, WBody (VString ''x'')], wr = [], closed = False\<rparr>"
              EOF "\<lparr>MagicNumber = 1, CodecType = GobType\<rparr>" "[]"]
        ServeConn_handshake_failure_silent
          [of "\<lparr>rd = [WOption \<lparr>MagicNumber = 0x3bef5c, CodecType = JsonType\<rparr>,
                     WHeader zero_Header, WBody (VString ''x'')], wr = [], closed = False\<rparr>"
              EOF "\<lparr>MagicNumber = 0x3bef5c, CodecType = JsonType\<rparr>" "[]"]
  by (simp add: ServeConn_def json_Decode_def conn_Read_def conn_Close_def conn_Write_def
        MagicNumber_const_def NewCodecFuncMap_def GobType_def JsonType_def)

subsection \<open>A request whose body does not decode\<close>

text \<open>
  \<^verbatim>\<open>readRequest\<close> returns a request together with an error in no case, so the branch
  of \<^verbatim>\<open>serveCodec\<close> that answers with the error text and \<open>invalidRequest\<close> is never
  taken; nor does it return \<^verbatim>\<open>(nil, nil)\<close>.
\<close>

lemma readRequest_not_nil_nil:
  "fst (readRequest c) \<noteq> (Some req, Some err) \<and> fst (readRequest c) \<noteq> (None, None)"
  by (auto simp: readRequest_def readRequestHeader_def Let_def
           split: prod.splits sum.splits option.splits)

text \<open>
  Claim C1. The claim asks for a response with a non-empty error and the
  \<open>invalidRequest\<close> placeholder when a body does not decode. Here the server is run on
  a connection that carries the handshake, request 7 whose body is an integer (it does
  not decode into the string the server assumes) and request 8 with a string body.
  Request 7 is answered with an empty error and the ordinary reply
  \<^verbatim>\<open>geerpc resp 7\<close>; request 8 is served afterwards.
\<close>

theorem serveCodec_body_decode_failure_answer:
  "ServeConn \<lparr>rd = [WOption DefaultOption,
             WHeader \<lparr>Header.ServiceMethod = ''Foo.Sum'', Header.Seq = 7, Header.Error = ''''\<rparr>,
             WBody (VInt 42),
             WHeader \<lparr>Header.ServiceMethod = ''Foo.Sum'', Header.Seq = 8, Header.Error = ''''\<rparr>,
             WBody (VString ''geerpc req 8'')], wr = [], closed = False\<rparr> =
   \<lparr>rd = [],
    wr = [WHeader \<lparr>Header.ServiceMethod = ''Foo.Sum'', Header.Seq = 7, Header.Error = ''''\<rparr>,
          WBody (VString ''geerpc resp 7''),
          WHeader \<lparr>Header.ServiceMethod = ''Foo.Sum'', Header.Seq = 8, Header.Error = ''''\<rparr>,
          WBody (VString ''geerpc resp 8'')],
    closed = True\<rparr>"
  by (simp add: ServeConn_def json_Decode_def conn_Read_def conn_Close_def conn_Write_def
        MagicNumber_const_def NewCodecFuncMap_def GobType_def DefaultOption_def
        serveCodec.simps readRequest_def readRequestHeader_def codec_read_defs codec_write_defs
        handleRequest_def sendResponse_def NewGobCodec_def zero_Header_def Let_def decimal.simps)

subsection \<open>Sequence numbers\<close>


lemma registerCall_open:
  "\<not> closing client \<Longrightarrow> \<not> shutdown client \<Longrightarrow>
     registerCall call client =
       ((seq client, None), call\<lparr>Seq := seq client\<rparr>,
        client\<lparr>pending := AList.update (seq client) (call\<lparr>Seq := seq client\<rparr>) (pending client),
               seq := seq client + 1\<rparr>)"
  by (simp add: registerCall_def Let_def)

lemma issued_eq:
  "issued call client = (if closing client \<or> shutdown client then [] else [seq client])"
  by (simp add: issued_def registerCall_def Let_def)

lemma seq_registerCall:
  "seq (snd (snd (registerCall call client))) =
     (if closing client \<or> shutdown client then seq client else seq client + 1)"
  by (simp add: registerCall_def Let_def)

lemma seq_removeCall [simp]: "seq (snd (removeCall s client)) = seq client"
  by (simp add: removeCall_def Let_def)

lemma seq_terminateCalls [simp]: "seq (fst (terminateCalls err rt client)) = seq client"
  by (simp add: terminateCalls_def Let_def split: prod.splits)

lemma seq_Client_Close [simp]: "seq (snd (Client_Close client)) = seq client"
  by (simp add: Client_Close_def Let_def split: prod.splits)

lemma seq_receive_round [simp]: "seq (fst (snd (receive_round client))) = seq client"
  by (simp add: receive_round_def removeCall_def Let_def split: prod.splits option.splits)

lemma seq_send:
  "seq (fst (snd (send call client))) =
     (if closing client \<or> shutdown client then seq client else seq client + 1)"
  by (simp add: send_def registerCall_def removeCall_def Let_def split: prod.splits option.splits)

lemma step_seq:
  "fst (step a client) = [] \<and> seq (snd (step a client)) = seq client \<or>
   fst (step a client) = [seq client] \<and> seq (snd (step a client)) = seq client + 1"
proof (cases a)
  case (GoCall sm args reply dn)
  then show ?thesis
    by (auto simp: Go_def issued_eq seq_send Let_def split: option.splits sum.splits prod.splits if_splits)
       (metis fst_conv snd_conv seq_send)+
qed (auto simp: issued_eq seq_registerCall seq_send)

lemma run_seq:
  "fst (run acts client) = map (\<lambda>i. seq client + word_of_nat i) [0..<length (fst (run acts client))] \<and>
   seq (snd (run acts client)) = seq client + word_of_nat (length (fst (run acts client)))"
proof (induction acts arbitrary: client)
  case Nil
  then show ?case by simp
next
  case (Cons a acts)
  obtain ss1 client1 where s: "step a client = (ss1, client1)" by (cases "step a client")
  obtain ss2 client2 where r: "run acts client1 = (ss2, client2)" by (cases "run acts client1")
  from Cons.IH [of client1] r
  have ih: "ss2 = map (\<lambda>i. seq client1 + word_of_nat i) [0..<length ss2]"
    and ih2: "seq client2 = seq client1 + word_of_nat (length ss2)" by simp_all
  from step_seq [of a client] s
  consider "ss1 = []" "seq client1 = seq client"
    | "ss1 = [seq client]" "seq client1 = seq client + 1" by auto
  then show ?case
  proof cases
    case 1
    with s r ih ih2 show ?thesis by simp
  next
    case 2
    have "map (\<lambda>i. seq client + word_of_nat i) [0..<Suc (length ss2)] =
          seq client # map (\<lambda>i. seq client + 1 + word_of_nat i) [0..<length ss2]"
      by (simp add: upt_conv_Cons map_Suc_upt [symmetric] del: upt_Suc)
    with 2 s r ih ih2 show ?thesis by (simp del: upt_Suc)
  qed
qed

lemma run_replicate_Register_length:
  "\<not> closing client \<Longrightarrow> \<not> shutdown client \<Longrightarrow>
     length (fst (run (replicate n (Register call)) client)) = n"
proof (induction n arbitrary: client)
  case 0
  then show ?case by simp
next
  case (Suc n)
  let ?client1 = "snd (snd (registerCall call client))"
  from Suc.prems have "\<not> closing ?client1" "\<not> shutdown ?client1"
    by (simp_all add: registerCall_def Let_def)
  from Suc.IH [OF this] Suc.prems show ?case
    by (cases "run (replicate n (Register call)) ?client1") (simp add: issued_eq)
qed

text \<open>
  Claim C3, as amended. In every history of a client made by \<^verbatim>\<open>newClientCodec\<close>, as
  long as fewer than \<open>2 ^ 64\<close> registrations have succeeded, the sequence numbers
  assigned by the successful registrations are \<open>1, 2, 3, \<dots>\<close> in this order: they start
  at 1, have no gaps, are strictly increasing, and 0 is not among them. Registrations
  that are refused, and the other operations of the client, consume no number.
\<close>

theorem sequence_numbers_consecutive:
  "run acts (newClientCodec c opt0) = (ss, client) \<Longrightarrow> length ss < 2 ^ 64 \<Longrightarrow>
     ss = map word_of_nat [1..<Suc (length ss)] \<and> sorted_wrt (<) ss \<and> 0 \<notin> set ss"
proof -
  assume r: "run acts (newClientCodec c opt0) = (ss, client)" and len: "length ss < 2 ^ 64"
  have "ss = map (\<lambda>i. 1 + word_of_nat i) [0..<length ss]"
    using run_seq [of acts "newClientCodec c opt0"] r by (simp add: newClientCodec_def)
  also have "\<dots> = map word_of_nat (map Suc [0..<length ss])"
    by simp
  also have "map Suc [0..<length ss] = [1..<Suc (length ss)]"
    by (simp add: map_Suc_upt del: upt_Suc)
  finally have eq: "ss = map word_of_nat [1..<Suc (length ss)]" .
  have nz: "0 \<notin> set (map (word_of_nat :: nat \<Rightarrow> u64) [1..<Suc (length ss)])"
  proof
    assume "0 \<in> set (map (word_of_nat :: nat \<Rightarrow> u64) [1..<Suc (length ss)])"
    then obtain k where k: "1 \<le> k" "k \<le> length ss" "(word_of_nat k :: u64) = 0" by auto
    with len have "0 < k" "k < 2 ^ LENGTH(64)" by simp_all
    from of_nat_neq_0 [OF this] k(3) show False by simp
  qed
  have inc: "sorted_wrt (<) (map (word_of_nat :: nat \<Rightarrow> u64) [1..<Suc (length ss)])"
  proof -
    have "sorted_wrt (\<lambda>i j. (word_of_nat i :: u64) < word_of_nat j) [1..<Suc (length ss)]"
    proof (rule sorted_wrt_mono_rel [OF _ sorted_wrt_upt])
      fix i j
      assume "i \<in> set [1..<Suc (length ss)]" "j \<in> set [1..<Suc (length ss)]" "i < j"
      then have "i < j" "j \<le> length ss" by (simp_all del: upt_Suc)
      with len have "i < 2 ^ 64" "j < 2 ^ 64" "i < j" by linarith+
      then show "(word_of_nat i :: u64) < word_of_nat j"
        by (simp add: word_of_nat_less_iff take_bit_nat_eq_self)
    qed
    then show ?thesis by (simp only: sorted_wrt_map)
  qed
  from eq nz inc show ?thesis by metis
qed

text \<open>A history with two calls, a removal, a close and a refused third call.\<close>

theorem sequence_numbers_consecutive_witness:
  "fst (run [GoCall ''Foo.Sum'' (VString ''a'') (Some (VString '''')) None,
             Register \<lparr>Seq = 0, ServiceMethod = ''Foo.Sum'', Args = VString ''b'',
                        Reply = None, Error = None, Done = \<lparr>cap = 1\<rparr>\<rparr>,
             Remove 1,
             CloseClient,
             Send \<lparr>Seq = 0, ServiceMethod = ''Foo.Sum'', Args = VString ''c'',
                    Reply = None, Error = None, Done = \<lparr>cap = 1\<rparr>\<rparr>]
          (newClientCodec (NewGobCodec \<lparr>rd = [], wr = [], closed = False\<rparr>) DefaultOption)) = [1, 2] \<and>
   [1, 2 :: u64] = map word_of_nat [1..<Suc (length [1, 2 :: u64])] \<and>
   sorted_wrt (<) [1, 2 :: u64] \<and> (0 :: u64) \<notin> set [1, 2]"
proof -
  let ?acts = "[GoCall ''Foo.Sum'' (VString ''a'') (Some (VString '''')) None,
             Register \<lparr>Seq = 0, ServiceMethod = ''Foo.Sum'', Args = VString ''b'',
                        Reply = None, Error = None, Done = \<lparr>cap = 1\<rparr>\<rparr>,
             Remove 1,
             CloseClient,
             Send \<lparr>Seq = 0, ServiceMethod = ''Foo.Sum'', Args = VString ''c'',
                    Reply = None, Error = None, Done = \<lparr>cap = 1\<rparr>\<rparr>]"
  let ?client = "newClientCodec (NewGobCodec \<lparr>rd = [], wr = [], closed = False\<rparr>) DefaultOption"
  have ev: "fst (run ?acts ?client) = [1, 2]"
    by (simp add: Go_def issued_def send_def registerCall_def removeCall_def Client_Close_def
          newClientCodec_def NewGobCodec_def GobCodec_Write_def Write_deferred_def
          enc_Encode_Header_def enc_Encode_def Writer_Write_def buf_Flush_def GobCodec_Close_def
          conn_Close_def conn_Write_def Let_def)
  have "run ?acts ?client = ([1, 2], snd (run ?acts ?client))"
    using ev by (metis prod.collapse)
  from sequence_numbers_consecutive [OF this] ev show ?thesis by simp
qed

text \<open>
  Claim C3, as stated, fails: \<^verbatim>\<open>seq\<close> is a \<^verbatim>\<open>uint64\<close> and \<^verbatim>\<open>client.seq++\<close> wraps
  around. On a fresh client the \<open>2 ^ 64\<close>-th successful registration is assigned the
  sequence number 0.
\<close>

theorem sequence_number_zero_issued:
  "last (fst (run (replicate (2 ^ 64)
                     (Register \<lparr>Seq = 0, ServiceMethod = ''Foo.Sum'', Args = VString ''x'',
                                Reply = None, Error = None, Done = \<lparr>cap = 1\<rparr>\<rparr>))
                  (newClientCodec (NewGobCodec \<lparr>rd = [], wr = [], closed = False\<rparr>) DefaultOption))) = 0"
proof -
  let ?call = "\<lparr>Seq = 0, ServiceMethod = ''Foo.Sum'', Args = VString ''x'',
                 Reply = None, Error = None, Done = \<lparr>cap = 1\<rparr>\<rparr>"
  let ?client = "newClientCodec (NewGobCodec \<lparr>rd = [], wr = [], closed = False\<rparr>) DefaultOption"
  define n :: nat where "n = 2 ^ 64"
  let ?ss = "fst (run (replicate n (Register ?call)) ?client)"
  have len: "length ?ss = n"
    by (rule run_replicate_Register_length) (simp_all add: newClientCodec_def)
  have "?ss = map (\<lambda>i. seq ?client + word_of_nat i) [0..<length ?ss]"
    using run_seq [of "replicate n (Register ?call)" ?client] by blast
  then have ss: "?ss = map (\<lambda>i. 1 + word_of_nat i) [0..<n]"
    by (simp only: len) (simp add: newClientCodec_def)
  have "0 < n" by (simp add: n_def)
  then have "last (map (\<lambda>i. (1 :: u64) + word_of_nat i) [0..<n]) = 1 + word_of_nat (n - 1)"
    by (simp add: last_map last_upt del: upt_Suc)
  also have "\<dots> = 0" by (simp add: n_def)
  finally have "last ?ss = 0" by (simp only: ss)
  then show ?thesis by (simp only: n_def)
qed

subsection \<open>The registry is a map\<close>

text \<open>
  \<open>registry_inv\<close> holds for a new client and is kept by every operation, hence in
  every history. The example client is evaluated once.
\<close>

lemma example_client_eq:
  "example_client ws =
     \<lparr>cc = \<lparr>conn = \<lparr>rd = ws,
                     wr = [WHeader \<lparr>Header.ServiceMethod = ''Foo.Sum'', Header.Seq = 1, Header.Error = ''''\<rparr>,
                           WBody (VString ''a''),
                           WHeader \<lparr>Header.ServiceMethod = ''Foo.Sum'', Header.Seq = 2, Header.Error = ''''\<rparr>,
                           WBody (VString ''b''),
                           WHeader \<lparr>Header.ServiceMethod = ''Foo.Sum'', Header.Seq = 3, Header.Error = ''''\<rparr>,
                           WBody (VString ''c'')],
                     closed = False\<rparr>,
            buf = \<lparr>data = [], werr = None\<rparr>\<rparr>,
      opt = DefaultOption,
      header = \<lparr>Header.ServiceMethod = ''Foo.Sum'', Header.Seq = 3, Header.Error = ''''\<rparr>,
      seq = 4,
      pending = [(1, example_call 1 ''a''), (3, example_call 3 ''c'')],
      closing = False, shutdown = False\<rparr>"
  by (simp add: example_client_def example_call_def Go_def issued_def send_def registerCall_def
        removeCall_def newClientCodec_def NewGobCodec_def Let_def codec_write_defs)






lemma registry_inv_cc [simp]: "registry_inv (client\<lparr>cc := c\<rparr>) = registry_inv client"
  by (simp add: registry_inv_def)

lemma registry_inv_header [simp]: "registry_inv (client\<lparr>header := hdr\<rparr>) = registry_inv client"
  by (simp add: registry_inv_def)





subsection \<open>The end of the receive loop\<close>
















subsection \<open>A round of the receive loop\<close>



subsection \<open>Registration on a client that is closing or shut down\<close>

lemma send_closed:
  "closing client \<or> shutdown client \<Longrightarrow>
     send call client =
       (call\<lparr>Error := Some ErrShutdown\<rparr>, client, [call\<lparr>Error := Some ErrShutdown\<rparr>])"
  by (simp add: send_def registerCall_def Let_def)



subsection \<open>\<^verbatim>\<open>Close\<close> and \<^verbatim>\<open>IsAvailable\<close>\<close>

lemma closing_step:
  assumes "closing client"
  shows "closing (snd (step a client))"
proof (cases a)
  case (Register call)
  with assms show ?thesis by (simp add: registerCall_def Let_def)
next
  case (Remove s)
  with assms show ?thesis by (simp add: removeCall_def Let_def)
next
  case (Terminate err rt)
  with assms show ?thesis by (simp add: terminateCalls_def Let_def split: prod.splits)
next
  case CloseClient
  with assms show ?thesis by (simp add: Client_Close_def Let_def split: prod.splits)
next
  case (Send call)
  with assms show ?thesis by (simp add: send_closed)
next
  case ReceiveRound
  with assms show ?thesis
    by (simp add: receive_round_def removeCall_def Let_def split: prod.splits option.splits)
next
  case (GoCall sm args reply dn)
  with assms show ?thesis
    by (auto simp: Go_def send_closed split: option.splits sum.splits)
qed

lemma closing_run: "closing client \<Longrightarrow> closing (snd (run acts client))"
proof (induction acts arbitrary: client)
  case Nil
  then show ?case by simp
next
  case (Cons a acts)
  from Cons.IH [OF closing_step [OF Cons.prems, of a]] show ?case
    by (cases "step a client"; cases "run acts (snd (step a client))") simp
qed

text \<open>
  Claim C7. On a client that is not closing, \<^verbatim>\<open>Close\<close> sets \<^verbatim>\<open>closing\<close>, closes the
  codec (whose connection is closed afterwards) and returns the codec's result. On a
  closing client it returns \<^verbatim>\<open>ErrShutdown\<close> and changes nothing; this is the case for
  every invocation after some invocation of \<^verbatim>\<open>Close\<close>, whatever the client has done
  in between. \<^verbatim>\<open>IsAvailable\<close> holds exactly when neither flag is set.
\<close>

theorem Client_Close_once:
  "(\<not> closing client \<longrightarrow>
      Client_Close client =
        (map_option Lib (fst (GobCodec_Close (cc client))),
         client\<lparr>closing := True, cc := snd (GobCodec_Close (cc client))\<rparr>) \<and>
      closed (conn (cc (snd (Client_Close client))))) \<and>
   (closing client \<longrightarrow> Client_Close client = (Some ErrShutdown, client)) \<and>
   Client_Close (snd (run acts (snd (Client_Close client)))) =
     (Some ErrShutdown, snd (run acts (snd (Client_Close client)))) \<and>
   (IsAvailable client \<longleftrightarrow> \<not> closing client \<and> \<not> shutdown client)"
proof -
  have "closing (snd (Client_Close client))"
    by (simp add: Client_Close_def Let_def split: prod.splits)
  from closing_run [OF this, of acts]
  have "Client_Close (snd (run acts (snd (Client_Close client)))) =
     (Some ErrShutdown, snd (run acts (snd (Client_Close client))))"
    by (simp add: Client_Close_def)
  moreover have "\<not> closing client \<longrightarrow>
      Client_Close client =
        (map_option Lib (fst (GobCodec_Close (cc client))),
         client\<lparr>closing := True, cc := snd (GobCodec_Close (cc client))\<rparr>) \<and>
      closed (conn (cc (snd (Client_Close client))))"
    by (auto simp: Client_Close_def GobCodec_Close_def conn_Close_def Let_def split: prod.splits)
  moreover have "closing client \<longrightarrow> Client_Close client = (Some ErrShutdown, client)"
    by (simp add: Client_Close_def)
  moreover have "IsAvailable client \<longleftrightarrow> \<not> closing client \<and> \<not> shutdown client"
    by (auto simp: IsAvailable_def)
  ultimately show ?thesis by blast
qed

text \<open>
  The example client is closed, and closed again: at once, and after a further call
  and a round of the receive loop.
\<close>

theorem Client_Close_once_witness:
  "Client_Close (example_client []) =
     (None, (example_client [])\<lparr>closing := True,
              cc := (cc (example_client []))\<lparr>conn := (conn (cc (example_client [])))\<lparr>closed := True\<rparr>\<rparr>\<rparr>) \<and>
   Client_Close (snd (Client_Close (example_client []))) =
     (Some ErrShutdown, snd (Client_Close (example_client []))) \<and>
   Client_Close (snd (run [Send (example_call 0 ''d''), ReceiveRound]
                          (snd (Client_Close (example_client []))))) =
     (Some ErrShutdown,
      snd (run [Send (example_call 0 ''d''), ReceiveRound] (snd (Client_Close (example_client []))))) \<and>
   IsAvailable (example_client []) \<and>
   \<not> IsAvailable (snd (Client_Close (example_client [])))"
  using Client_Close_once [of "example_client []" "[Send (example_call 0 ''d''), ReceiveRound]"]
        Client_Close_once [of "snd (Client_Close (example_client []))" "[]"]
  by (simp add: example_client_eq Client_Close_def GobCodec_Close_def conn_Close_def Let_def
        IsAvailable_def)

subsection \<open>The completion queue of \<^verbatim>\<open>Go\<close>\<close>

lemma send_Done:
  "Done (fst (send call client)) = Done call \<and>
   (\<forall>k \<in> set (snd (snd (send call client))). Done k = Done call)"
  by (auto simp: send_def registerCall_def removeCall_def Let_def update_conv'
      split: prod.splits option.splits if_splits)

text \<open>
  Claim C9. Without a channel, \<^verbatim>\<open>Go\<close> sends the Call with a new channel of capacity
  10, and the Call it returns has that channel. With a channel of capacity 0, \<^verbatim>\<open>Go\<close>
  panics before anything is sent; with a channel of positive capacity it sends the Call
  with that channel.
\<close>

theorem Go_completion_queue:
  "Go serviceMethod args reply None client =
     Inr (send \<lparr>Seq = 0, ServiceMethod = serviceMethod, Args = args, Reply = reply,
                Error = None, Done = \<lparr>cap = 10\<rparr>\<rparr> client) \<and>
   10 \<le> cap (Done (fst (send \<lparr>Seq = 0, ServiceMethod = serviceMethod, Args = args,
                                Reply = reply, Error = None, Done = \<lparr>cap = 10\<rparr>\<rparr> client))) \<and>
   (cap ch = 0 \<longrightarrow>
      Go serviceMethod args reply (Some ch) client =
        Inl (Panic ''rpc client: done channel is unbuffered'')) \<and>
   (0 < cap ch \<longrightarrow>
      Go serviceMethod args reply (Some ch) client =
        Inr (send \<lparr>Seq = 0, ServiceMethod = serviceMethod, Args = args, Reply = reply,
                   Error = None, Done = ch\<rparr> client))"
  using send_Done [of "\<lparr>Seq = 0, ServiceMethod = serviceMethod, Args = args, Reply = reply,
                        Error = None, Done = \<lparr>cap = 10\<rparr>\<rparr>" client]
  by (simp add: Go_def)

text \<open>A fourth call on the example client: unbuffered channel, no channel, capacity 1.\<close>

theorem Go_completion_queue_witness:
  "Go ''Foo.Sum'' (VString ''d'') (Some (VString '''')) (Some \<lparr>cap = 0\<rparr>) (example_client []) =
     Inl (Panic ''rpc client: done channel is unbuffered'') \<and>
   (case Go ''Foo.Sum'' (VString ''d'') (Some (VString '''')) None (example_client []) of
      Inl p \<Rightarrow> False
    | Inr (call, client, sent) \<Rightarrow> call = example_call 4 ''d'' \<and> cap (Done call) = 10 \<and> sent = []) \<and>
   (case Go ''Foo.Sum'' (VString ''d'') (Some (VString '''')) (Some \<lparr>cap = 1\<rparr>) (example_client []) of
      Inl p \<Rightarrow> False
    | Inr (call, client, sent) \<Rightarrow> call = (example_call 4 ''d'')\<lparr>Done := \<lparr>cap = 1\<rparr>\<rparr> \<and> sent = [])"
  using Go_completion_queue
          [of "''Foo.Sum''" "VString ''d''" "Some (VString '''')" "example_client []" "\<lparr>cap = 0\<rparr>"]
        Go_completion_queue
          [of "''Foo.Sum''" "VString ''d''" "Some (VString '''')" "example_client []" "\<lparr>cap = 1\<rparr>"]
  by (simp add: example_client_eq example_call_def send_def registerCall_def Let_def
        codec_write_defs)

subsection \<open>\<^verbatim>\<open>parseOptions\<close>\<close>

text \<open>
  Claim C10. The claim asks that more than one Option be rejected with an error.
  \<^verbatim>\<open>parseOptions\<close> tests \<^verbatim>\<open>opts[0] == nil\<close> before it tests the number of
  options: when the first argument is \<^verbatim>\<open>nil\<close>, any further Options are accepted
  without error and ignored, and the default Option is returned.
\<close>

theorem parseOptions_nil_then_more:
  "parseOptions [None, Some \<lparr>MagicNumber = 1, CodecType = JsonType\<rparr>] = Inr DefaultOption \<and>
   parseOptions [None, Some \<lparr>MagicNumber = 1, CodecType = JsonType\<rparr>,
                 Some \<lparr>MagicNumber = 2, CodecType = GobType\<rparr>] = Inr DefaultOption"
  by (simp add: parseOptions_def)

text \<open>
  The rest of the claim holds. Whatever \<^verbatim>\<open>parseOptions\<close> returns has the magic number
  \<^verbatim>\<open>0x3bef5c\<close> and a non-empty codec type (gob in place of an empty one); two or more
  arguments of which the first is not \<^verbatim>\<open>nil\<close> are rejected; a client made by
  \<^verbatim>\<open>Dial\<close> has written an Option record with that magic number and the gob codec
  type, and \<^verbatim>\<open>ServeConn\<close> goes on to serve a connection that starts with such a
  record.
\<close>

lemma parseOptions_result:
  "parseOptions opts = Inr opt0 \<Longrightarrow>
     MagicNumber opt0 = 0x3bef5c \<and> CodecType opt0 \<noteq> '''' \<and>
     (\<forall>given. opts = [Some given] \<longrightarrow>
        CodecType opt0 = (if CodecType given = '''' then GobType else CodecType given))"
  by (auto simp: parseOptions_def DefaultOption_def MagicNumber_const_def GobType_def Let_def
      split: list.splits option.splits if_splits)

lemma parseOptions_more_than_one:
  "parseOptions (Some given # another # opts) = Inl (ErrorsNew ''number of options is more than 1'')"
  by (simp add: parseOptions_def)

lemma Dial_handshake:
  "Dial (Inr k) opts = Inr client \<Longrightarrow>
     MagicNumber (opt client) = 0x3bef5c \<and> CodecType (opt client) = GobType \<and>
     wr (conn (cc client)) = wr k @ [WOption (opt client)]"
  by (auto simp: Dial_def NewClient_def NewCodecFuncMap_def newClientCodec_def NewGobCodec_def
        json_Encode_def conn_Write_def
      dest: parseOptions_result
      split: sum.splits option.splits prod.splits if_splits)

lemma ServeConn_accepts:
  "\<not> closed k \<Longrightarrow> rd k = WOption opt0 # rest \<Longrightarrow>
   MagicNumber opt0 = 0x3bef5c \<Longrightarrow> CodecType opt0 = GobType \<Longrightarrow>
     ServeConn k = snd (conn_Close (conn (serveCodec (NewGobCodec (k\<lparr>rd := rest\<rparr>)))))"
  by (simp add: ServeConn_def json_Decode_def conn_Read_def MagicNumber_const_def
        NewCodecFuncMap_def)

end
